theory Spec2Isabelle
  imports Main
begin

section \<open>Values, exceptions and the pump driver\<close>

text \<open>
  The handlers of \<^verbatim>\<open>main.py\<close> validate the fields of a parsed request model and
  forward them to the pump driver \<^verbatim>\<open>pypentair\<close>. Python values that travel between the
  request, the driver and the JSON response are modelled by \<open>val\<close>; Python integers are
  unbounded, hence \<open>int\<close>. The calls of the logger only format values and are left out,
  except where the formatted value is a read of the device: that read is part of the model.
\<close>

datatype val =
    VNone
  | VInt int
  | VBool bool
  | VStr string
  | VList "val list"
  | VDict "(string \<times> val) list"

text \<open>
  Exceptions are values. \<open>HTTPException\<close> is FastAPI's exception class (a subclass of
  Python's \<open>Exception\<close>) with its \<open>status_code\<close> and \<open>detail\<close>. A detail is a literal
  string of the source or \<open>str(e)\<close> of a caught exception \<open>e\<close>, which is kept symbolic.
  \<open>DriverError\<close> is any exception raised inside the driver, with its text.
\<close>

datatype exn =
    HTTPException int detail
  | IndexError
  | TypeError
  | KeyError
  | DriverError string
and detail =
    Lit string
  | Str exn

text \<open>
  What a handler call ends in: \<open>Inr body\<close> is the HTTP 200 response with that JSON body,
  \<open>Inl e\<close> is the exception that leaves the handler. FastAPI answers an
  \<open>HTTPException\<close> with its status code and any other exception with status 500.
\<close>

fun status_code :: "exn + val \<Rightarrow> int" where
  "status_code (Inr body) = 200"
| "status_code (Inl (HTTPException code d)) = code"
| "status_code (Inl e) = 500"

text \<open>
  What the handlers address on the pump: a property of the \<open>Pump\<close> object
  (\<^verbatim>\<open>pump.ramp\<close>), a raw setting (\<^verbatim>\<open>pump.get(SETTING["RUNNING_PROGRAM"])\<close>), or a property of
  the program object \<^verbatim>\<open>pump.program(i)\<close>. The table \<open>SETTING\<close> of the driver is taken to
  have the key \<open>RUNNING_PROGRAM\<close>, the same in \<open>control_pump\<close> and \<open>get_config\<close>.
\<close>

datatype attr =
    Attr string
  | Setting string
  | ProgAttr int string

text \<open>
  The status dictionary \<^verbatim>\<open>pump.status\<close>, with the five keys the handler reads. A key that
  is absent is \<open>None\<close>; the entries are integers, as \<open>StatusResponse\<close> declares them.
\<close>

datatype status =
  Status (st_run: "int option") (st_rpm: "int option") (st_watts: "int option")
         (st_mode: "int option") (st_time: "int list option")

text \<open>
  The driver is an opaque collaborator: every call takes the state \<open>'d\<close> of the device and
  its link, may change it, and either returns or raises (\<open>Some msg\<close>, \<open>Inl msg\<close>: the text of
  the exception).
\<close>

record 'd driver =
  pump_new :: "'d \<Rightarrow> string option \<times> 'd"
  pump_get :: "attr \<Rightarrow> 'd \<Rightarrow> (string + val) \<times> 'd"
  pump_set :: "attr \<Rightarrow> val \<Rightarrow> 'd \<Rightarrow> string option \<times> 'd"
  pump_program :: "int \<Rightarrow> 'd \<Rightarrow> string option \<times> 'd"
  pump_status :: "'d \<Rightarrow> (string + status) \<times> 'd"

text \<open>
  A handler runs on the device state together with the list of writes it has issued to the
  driver so far, in the order of issue.
\<close>

record 'd session =
  dev :: 'd
  issued :: "(attr \<times> val) list"

type_synonym ('d, 'a) io = "'d session \<Rightarrow> (exn + 'a) \<times> 'd session"

definition io_return :: "'a \<Rightarrow> ('d, 'a) io" where
  "io_return x s = (Inr x, s)"

definition io_raise :: "exn \<Rightarrow> ('d, 'a) io" where
  "io_raise e s = (Inl e, s)"

definition io_bind :: "('d, 'a) io \<Rightarrow> ('a \<Rightarrow> ('d, 'b) io) \<Rightarrow> ('d, 'b) io" where
  "io_bind m f s = (case m s of (Inl e, s') \<Rightarrow> (Inl e, s') | (Inr x, s') \<Rightarrow> f x s')"

fun io_seq :: "('d, unit) io list \<Rightarrow> ('d, unit) io" where
  "io_seq [] = io_return ()"
| "io_seq (m # ms) = io_bind m (\<lambda>_. io_seq ms)"

fun io_map :: "('a \<Rightarrow> ('d, 'b) io) \<Rightarrow> 'a list \<Rightarrow> ('d, 'b list) io" where
  "io_map f [] = io_return []"
| "io_map f (x # xs) = io_bind (f x) (\<lambda>y. io_bind (io_map f xs) (\<lambda>ys. io_return (y # ys)))"

definition new_pump :: "'d driver \<Rightarrow> ('d, unit) io" where
  "new_pump drv s =
     (case pump_new drv (dev s) of
        (None, d) \<Rightarrow> (Inr (), s\<lparr>dev := d\<rparr>)
      | (Some msg, d) \<Rightarrow> (Inl (DriverError msg), s\<lparr>dev := d\<rparr>))"

definition get_attr :: "'d driver \<Rightarrow> attr \<Rightarrow> ('d, val) io" where
  "get_attr drv a s =
     (case pump_get drv a (dev s) of
        (Inr v, d) \<Rightarrow> (Inr v, s\<lparr>dev := d\<rparr>)
      | (Inl msg, d) \<Rightarrow> (Inl (DriverError msg), s\<lparr>dev := d\<rparr>))"

definition set_attr :: "'d driver \<Rightarrow> attr \<Rightarrow> val \<Rightarrow> ('d, unit) io" where
  "set_attr drv a v s =
     (case pump_set drv a v (dev s) of
        (None, d) \<Rightarrow> (Inr (), \<lparr>dev = d, issued = issued s @ [(a, v)]\<rparr>)
      | (Some msg, d) \<Rightarrow> (Inl (DriverError msg), \<lparr>dev = d, issued = issued s @ [(a, v)]\<rparr>))"

definition open_program :: "'d driver \<Rightarrow> int \<Rightarrow> ('d, unit) io" where
  "open_program drv i s =
     (case pump_program drv i (dev s) of
        (None, d) \<Rightarrow> (Inr (), s\<lparr>dev := d\<rparr>)
      | (Some msg, d) \<Rightarrow> (Inl (DriverError msg), s\<lparr>dev := d\<rparr>))"

definition read_status :: "'d driver \<Rightarrow> ('d, status) io" where
  "read_status drv s =
     (case pump_status drv (dev s) of
        (Inr st, d) \<Rightarrow> (Inr st, s\<lparr>dev := d\<rparr>)
      | (Inl msg, d) \<Rightarrow> (Inl (DriverError msg), s\<lparr>dev := d\<rparr>))"

text \<open>
  \<^verbatim>\<open>try: ... except Exception as e: raise HTTPException(status_code=500, detail=str(e))\<close>:
  the clause that closes every handler. Every exception of the model is an \<open>Exception\<close>,
  \<open>HTTPException\<close> included, so whatever the body raises is replaced.
\<close>

definition except_Exception :: "('d, 'a) io \<Rightarrow> ('d, 'a) io" where
  "except_Exception body s =
     (case body s of
        (Inl e, s') \<Rightarrow> (Inl (HTTPException 500 (Str e)), s')
      | (Inr x, s') \<Rightarrow> (Inr x, s'))"

text \<open>\<^verbatim>\<open>body[key]\<close> of a JSON object.\<close>

fun dict_get :: "val \<Rightarrow> string \<Rightarrow> val option" where
  "dict_get (VDict kvs) key = map_of kvs key"
| "dict_get v key = None"

definition success :: val where
  "success = VDict [(''status'', VStr ''success'')]"

section \<open>POST /control\<close>

record PumpControl =
  state :: "bool option"
  speed :: "int option"
  ramp :: "int option"
  celsius :: "bool option"
  fahrenheit :: "bool option"
  contrast :: "int option"
  address :: "int option"
  id_field :: "int option"
  ampm :: "bool option"
  max_rpm :: "int option"
  min_rpm :: "int option"
  quick_rpm :: "int option"
  quick_timer :: "int list option"
  prime_enable :: "bool option"
  prime_max_time :: "int option"
  prime_sensitivity :: "int option"
  prime_delay :: "int option"
  antifreeze_enable :: "bool option"
  antifreeze_rpm :: "int option"
  antifreeze_temp :: "int option"
  svrs_restart_enable :: "bool option"
  svrs_restart_timer :: "int option"
  time_out_timer :: "int list option"
  running_program :: "int option"
  selected_program :: "int option"

text \<open>
  Each \<^verbatim>\<open>if control.f is not None:\<close> block of \<open>control_pump\<close> looks at the request only and
  does one of three things: nothing, one write to the driver, or a raise.
\<close>

datatype action = Skip | Write attr val | Raise exn

text \<open>The blocks of the Boolean fields: the value is passed through.\<close>

definition flag_block :: "bool option \<Rightarrow> attr \<Rightarrow> action" where
  "flag_block fld a = (case fld of None \<Rightarrow> Skip | Some b \<Rightarrow> Write a (VBool b))"

text \<open>\<^verbatim>\<open>if lo <= control.f <= hi: pump.a = control.f  else: raise HTTPException(400, msg)\<close>\<close>

definition range_block :: "int option \<Rightarrow> int \<Rightarrow> int \<Rightarrow> attr \<Rightarrow> string \<Rightarrow> action" where
  "range_block fld lo hi a msg =
     (case fld of
        None \<Rightarrow> Skip
      | Some v \<Rightarrow>
          if lo \<le> v \<and> v \<le> hi then Write a (VInt v)
          else Raise (HTTPException 400 (Lit msg)))"

text \<open>
  \<^verbatim>\<open>if 0 <= control.f[0] <= 9 and 0 <= control.f[1] <= 59:\<close> the list is indexed without a
  length check, element 1 only when element 0 passed its test.
\<close>

definition timer_block :: "int list option \<Rightarrow> attr \<Rightarrow> string \<Rightarrow> action" where
  "timer_block fld a msg =
     (case fld of
        None \<Rightarrow> Skip
      | Some xs \<Rightarrow>
          (case xs of
             [] \<Rightarrow> Raise IndexError
           | h # rest \<Rightarrow>
               if 0 \<le> h \<and> h \<le> 9 then
                 (case rest of
                    [] \<Rightarrow> Raise IndexError
                  | m # _ \<Rightarrow>
                      if 0 \<le> m \<and> m \<le> 59 then Write a (VList (map VInt xs))
                      else Raise (HTTPException 400 (Lit msg)))
               else Raise (HTTPException 400 (Lit msg))))"

definition state_block :: "bool option \<Rightarrow> action" where
  "state_block fld =
     (case fld of
        None \<Rightarrow> Skip
      | Some b \<Rightarrow> Write (Attr ''run'') (VInt (if b then 0x0A else 0x04)))"

definition running_program_block :: "int option \<Rightarrow> action" where
  "running_program_block fld =
     (case fld of
        None \<Rightarrow> Skip
      | Some v \<Rightarrow>
          if 1 \<le> v \<and> v \<le> 4 then Write (Setting ''RUNNING_PROGRAM'') (VInt (v * 8))
          else Raise (HTTPException 400 (Lit ''Running program must be between 1 and 4'')))"

text \<open>The blocks of \<open>control_pump\<close>, in the order of the source.\<close>

definition control_actions :: "PumpControl \<Rightarrow> action list" where
  "control_actions control =
    [ state_block (state control),
      range_block (speed control) 450 3450 (Attr ''trpm'')
        ''Speed must be between 450 and 3450 RPM'',
      range_block (ramp control) 100 200 (Attr ''ramp'')
        ''Ramp must be between 100 and 200'',
      flag_block (celsius control) (Attr ''celsius''),
      flag_block (fahrenheit control) (Attr ''fahrenheit''),
      range_block (contrast control) 1 3 (Attr ''contrast'')
        ''Contrast must be between 1 and 3'',
      range_block (address control) 96 97 (Attr ''address'')
        ''Address must be between 96 and 97'',
      range_block (id_field control) 1 2 (Attr ''id'')
        ''ID must be between 1 and 2'',
      flag_block (ampm control) (Attr ''ampm''),
      range_block (max_rpm control) 3445 3450 (Attr ''max_rpm'')
        ''Max RPM must be between 3445 and 3450'',
      range_block (min_rpm control) 1100 1105 (Attr ''min_rpm'')
        ''Min RPM must be between 1100 and 1105'',
      range_block (quick_rpm control) 2000 3000 (Attr ''quick_rpm'')
        ''Quick RPM must be between 2000 and 3000'',
      timer_block (quick_timer control) (Attr ''quick_timer'')
        ''Quick timer hours 0-9, minutes 0-59'',
      flag_block (prime_enable control) (Attr ''prime_enable''),
      range_block (prime_max_time control) 1 30 (Attr ''prime_max_time'')
        ''Prime max time must be between 1 and 30'',
      range_block (prime_sensitivity control) 1 100 (Attr ''prime_sensitivity'')
        ''Prime sensitivity must be between 1 and 100'',
      range_block (prime_delay control) 1 600 (Attr ''prime_delay'')
        ''Prime delay must be between 1 and 600'',
      flag_block (antifreeze_enable control) (Attr ''antifreeze_enable''),
      range_block (antifreeze_rpm control) 1100 3000 (Attr ''antifreeze_rpm'')
        ''Antifreeze RPM must be between 1100 and 3000'',
      range_block (antifreeze_temp control) 40 50 (Attr ''antifreeze_temp'')
        ''Antifreeze temp must be between 40 and 50'',
      flag_block (svrs_restart_enable control) (Attr ''svrs_restart_enable''),
      range_block (svrs_restart_timer control) 30 300 (Attr ''svrs_restart_timer'')
        ''SVRS restart timer must be between 30 and 300'',
      timer_block (time_out_timer control) (Attr ''time_out_timer'')
        ''Time out timer hours 0-9, minutes 0-59'',
      running_program_block (running_program control),
      range_block (selected_program control) 1 8 (Attr ''selected_program'')
        ''Selected program must be between 1 and 4'' ]"

fun perform :: "'d driver \<Rightarrow> action \<Rightarrow> ('d, unit) io" where
  "perform drv Skip = io_return ()"
| "perform drv (Write a v) = set_attr drv a v"
| "perform drv (Raise e) = io_raise e"

text \<open>The body of the \<^verbatim>\<open>try\<close> of \<open>control_pump\<close>, and the handler.\<close>

definition control_pump_body :: "'d driver \<Rightarrow> PumpControl \<Rightarrow> ('d, val) io" where
  "control_pump_body drv control =
     io_bind (new_pump drv) (\<lambda>_.
     io_bind (io_seq (map (perform drv) (control_actions control))) (\<lambda>_.
     io_return success))"

definition control_pump :: "'d driver \<Rightarrow> PumpControl \<Rightarrow> ('d, val) io" where
  "control_pump drv control = except_Exception (control_pump_body drv control)"

text \<open>The request that carries no field.\<close>

definition no_fields :: PumpControl where
  "no_fields =
     \<lparr> state = None, speed = None, ramp = None, celsius = None, fahrenheit = None,
       contrast = None, address = None, id_field = None, ampm = None, max_rpm = None,
       min_rpm = None, quick_rpm = None, quick_timer = None, prime_enable = None,
       prime_max_time = None, prime_sensitivity = None, prime_delay = None,
       antifreeze_enable = None, antifreeze_rpm = None, antifreeze_temp = None,
       svrs_restart_enable = None, svrs_restart_timer = None, time_out_timer = None,
       running_program = None, selected_program = None \<rparr>"

text \<open>What a list of blocks does when no block before the first raising one fails in the
  driver: the writes of the blocks before the first raise, and the first exception.\<close>

fun first_raise :: "action list \<Rightarrow> exn option" where
  "first_raise [] = None"
| "first_raise (Raise e # acts) = Some e"
| "first_raise (a # acts) = first_raise acts"

fun before_raise :: "action list \<Rightarrow> action list" where
  "before_raise [] = []"
| "before_raise (Raise e # acts) = []"
| "before_raise (a # acts) = a # before_raise acts"

fun writes_of :: "action list \<Rightarrow> (attr \<times> val) list" where
  "writes_of [] = []"
| "writes_of (Write a v # acts) = (a, v) # writes_of acts"
| "writes_of (b # acts) = writes_of acts"

text \<open>The device after a list of writes, each applied by the driver in turn.\<close>

fun apply_writes :: "'d driver \<Rightarrow> (attr \<times> val) list \<Rightarrow> 'd \<Rightarrow> 'd" where
  "apply_writes drv [] d = d"
| "apply_writes drv ((a, v) # ws) d = apply_writes drv ws (snd (pump_set drv a v d))"

text \<open>Python truthiness, as \<^verbatim>\<open>if pump.mode:\<close> tests it.\<close>

fun truthy :: "val \<Rightarrow> bool" where
  "truthy VNone = False"
| "truthy (VInt n) = (n \<noteq> 0)"
| "truthy (VBool b) = b"
| "truthy (VStr s) = (s \<noteq> [])"
| "truthy (VList xs) = (xs \<noteq> [])"
| "truthy (VDict kvs) = (kvs \<noteq> [])"

section \<open>POST /program\<close>

record ProgramControl =
  program_id :: int
  rpm :: "int option"
  mode :: "string option"
  schedule_start :: "int list option"
  schedule_end :: "int list option"
  egg_timer :: "int list option"

definition mode_map :: "(string \<times> int) list" where
  "mode_map = [(''MANUAL'', 0), (''EGG_TIMER'', 1), (''SCHEDULE'', 2), (''DISABLED'', 3)]"

text \<open>
  The block of \<open>mode\<close>. Its debug line formats \<^verbatim>\<open>program.mode\<close>, a read of the device,
  before the write.
\<close>

definition mode_block :: "'d driver \<Rightarrow> int \<Rightarrow> string option \<Rightarrow> ('d, unit) io" where
  "mode_block drv pid fld =
     (case fld of
        None \<Rightarrow> io_return ()
      | Some m \<Rightarrow>
          (case map_of mode_map m of
             Some n \<Rightarrow>
               io_bind (get_attr drv (ProgAttr pid ''mode'')) (\<lambda>_.
               set_attr drv (ProgAttr pid ''mode'') (VInt n))
           | None \<Rightarrow>
               io_raise (HTTPException 400
                 (Lit ''Mode must be MANUAL, EGG_TIMER, SCHEDULE, or DISABLED''))))"

text \<open>
  \<^verbatim>\<open>if len(f) == 2 and 0 <= f[0] <= 23 and 0 <= f[1] <= 59:\<close> the length is tested before
  the list is indexed.
\<close>

definition schedule_block :: "int list option \<Rightarrow> attr \<Rightarrow> string \<Rightarrow> action" where
  "schedule_block fld a msg =
     (case fld of
        None \<Rightarrow> Skip
      | Some xs \<Rightarrow>
          (case xs of
             [h, m] \<Rightarrow>
               if 0 \<le> h \<and> h \<le> 23 \<and> 0 \<le> m \<and> m \<le> 59 then Write a (VList (map VInt xs))
               else Raise (HTTPException 400 (Lit msg))
           | _ \<Rightarrow> Raise (HTTPException 400 (Lit msg))))"

definition program_actions :: "ProgramControl \<Rightarrow> action list" where
  "program_actions control =
    [ range_block (rpm control) 450 3450 (ProgAttr (program_id control) ''rpm'')
        ''Program RPM must be between 450 and 3450'',
      schedule_block (schedule_start control) (ProgAttr (program_id control) ''schedule_start'')
        ''Schedule start must have hours 0-23, minutes 0-59'',
      schedule_block (schedule_end control) (ProgAttr (program_id control) ''schedule_end'')
        ''Schedule end must have hours 0-23, minutes 0-59'',
      schedule_block (egg_timer control) (ProgAttr (program_id control) ''egg_timer'')
        ''Egg timer must have hours 0-23, minutes 0-59'' ]"

definition control_program_body :: "'d driver \<Rightarrow> ProgramControl \<Rightarrow> ('d, val) io" where
  "control_program_body drv control =
     (if \<not> (1 \<le> program_id control \<and> program_id control \<le> 8) then
        io_raise (HTTPException 400 (Lit ''Program ID must be between 1 and 8''))
      else
        io_bind (new_pump drv) (\<lambda>_.
        io_bind (get_attr drv (Attr ''mode'')) (\<lambda>_.
        io_bind (get_attr drv (Attr ''mode'')) (\<lambda>pump_mode.
        if truthy pump_mode then
          io_raise (HTTPException 400
            (Lit ''Pump is currently running, cannot modify program''))
        else
          io_bind (open_program drv (program_id control)) (\<lambda>_.
          io_bind (mode_block drv (program_id control) (mode control)) (\<lambda>_.
          io_bind (io_seq (map (perform drv) (program_actions control))) (\<lambda>_.
          io_return success)))))))"

definition control_program :: "'d driver \<Rightarrow> ProgramControl \<Rightarrow> ('d, val) io" where
  "control_program drv control = except_Exception (control_program_body drv control)"

section \<open>GET /status\<close>

text \<open>\<^verbatim>\<open>{v: k for k, v in table.items()}.get(x, default)\<close>: the table read backwards; where two
  names share a number the later entry wins.\<close>

definition reverse_get :: "(string \<times> int) list \<Rightarrow> int \<Rightarrow> string \<Rightarrow> string" where
  "reverse_get table x dflt =
     (case map_of (rev (map (\<lambda>(k, v). (v, k)) table)) x of
        None \<Rightarrow> dflt
      | Some k \<Rightarrow> k)"

text \<open>\<^verbatim>\<open>xs[i]\<close> on a list, for the constant indices of the source: past the end it raises.\<close>

definition py_item :: "'a list \<Rightarrow> nat \<Rightarrow> ('d, 'a) io" where
  "py_item xs i = (if i < length xs then io_return (xs ! i) else io_raise IndexError)"

text \<open>
  The body of \<open>get_status\<close>. \<open>PUMP_MODES\<close> is the table of \<^verbatim>\<open>pypentair.pump\<close>, a parameter
  here. \<^verbatim>\<open>status.get(key, default)\<close> supplies the default for an absent key.
\<close>

definition get_status_body :: "'d driver \<Rightarrow> (string \<times> int) list \<Rightarrow> ('d, val) io" where
  "get_status_body drv PUMP_MODES =
     io_bind (new_pump drv) (\<lambda>_.
     io_bind (read_status drv) (\<lambda>status.
     io_bind (py_item (case st_time status of None \<Rightarrow> [0, 0] | Some t \<Rightarrow> t) 0) (\<lambda>hours.
     io_bind (py_item (case st_time status of None \<Rightarrow> [0, 0] | Some t \<Rightarrow> t) 1) (\<lambda>minutes.
     io_return (VDict
       [ (''state'', VBool ((case st_run status of None \<Rightarrow> 0 | Some r \<Rightarrow> r) = 0x0A)),
         (''speed'', VInt (case st_rpm status of None \<Rightarrow> 0 | Some r \<Rightarrow> r)),
         (''watts'', VInt (case st_watts status of None \<Rightarrow> 0 | Some w \<Rightarrow> w)),
         (''mode'', VStr (reverse_get PUMP_MODES
                            (case st_mode status of None \<Rightarrow> 0 | Some m \<Rightarrow> m) ''UNKNOWN'')),
         (''time'', VList [VInt hours, VInt minutes]) ])))))"

definition get_status :: "'d driver \<Rightarrow> (string \<times> int) list \<Rightarrow> ('d, val) io" where
  "get_status drv PUMP_MODES = except_Exception (get_status_body drv PUMP_MODES)"

section \<open>GET /config\<close>

text \<open>Where Python takes an integer: a \<open>bool\<close> is one.\<close>

fun py_int :: "val \<Rightarrow> int option" where
  "py_int (VInt n) = Some n"
| "py_int (VBool b) = Some (if b then 1 else 0)"
| "py_int v = None"

text \<open>\<^verbatim>\<open>["MANUAL", "EGG_TIMER", "SCHEDULE"][program.mode]\<close>: a negative index counts from the
  end, an index outside the list raises.\<close>

definition mode_labels :: "string list" where
  "mode_labels = [''MANUAL'', ''EGG_TIMER'', ''SCHEDULE'']"

definition mode_label :: "val \<Rightarrow> exn + val" where
  "mode_label v =
     (case py_int v of
        None \<Rightarrow> Inl TypeError
      | Some i \<Rightarrow>
          if 0 \<le> i \<and> i < 3 then Inr (VStr (mode_labels ! nat i))
          else if - 3 \<le> i \<and> i < 0 then Inr (VStr (mode_labels ! nat (i + 3)))
          else Inl IndexError)"

text \<open>\<^verbatim>\<open>x // 8\<close>\<close>

definition floor_div8 :: "val \<Rightarrow> exn + val" where
  "floor_div8 v = (case py_int v of None \<Rightarrow> Inl TypeError | Some n \<Rightarrow> Inr (VInt (n div 8)))"

text \<open>\<^verbatim>\<open>dt[i]\<close> for a constant index \<open>i\<close>, on whatever the driver returned.\<close>

fun subscript :: "val \<Rightarrow> nat \<Rightarrow> exn + val" where
  "subscript (VList xs) i = (if i < length xs then Inr (xs ! i) else Inl IndexError)"
| "subscript (VStr s) i = (if i < length s then Inr (VStr [s ! i]) else Inl IndexError)"
| "subscript (VDict kvs) i = Inl KeyError"
| "subscript v i = Inl TypeError"

text \<open>\<^verbatim>\<open>{v: k for k, v in WEEKDAYS.items()}.get(dt[2], "SUNDAY")\<close>: a list or a dictionary
  is not hashable and cannot be looked up.\<close>

fun weekday_name :: "(string \<times> int) list \<Rightarrow> val \<Rightarrow> exn + val" where
  "weekday_name WEEKDAYS (VList xs) = Inl TypeError"
| "weekday_name WEEKDAYS (VDict kvs) = Inl TypeError"
| "weekday_name WEEKDAYS v =
     Inr (VStr (case py_int v of
                  None \<Rightarrow> ''SUNDAY''
                | Some n \<Rightarrow> reverse_get WEEKDAYS n ''SUNDAY''))"

definition io_lift :: "exn + 'a \<Rightarrow> ('d, 'a) io" where
  "io_lift r s = (r, s)"

text \<open>One round of the loop \<^verbatim>\<open>for i in range(1, 5)\<close>: the summary of program \<open>i\<close>.\<close>

definition read_program :: "'d driver \<Rightarrow> int \<Rightarrow> ('d, val) io" where
  "read_program drv i =
     io_bind (open_program drv i) (\<lambda>_.
     io_bind (get_attr drv (ProgAttr i ''rpm'')) (\<lambda>program_rpm.
     io_bind (get_attr drv (ProgAttr i ''mode'')) (\<lambda>program_mode.
     io_bind (io_lift (mode_label program_mode)) (\<lambda>label.
     io_bind (get_attr drv (ProgAttr i ''schedule_start'')) (\<lambda>sched_start.
     io_bind (get_attr drv (ProgAttr i ''schedule_end'')) (\<lambda>sched_end.
     io_bind (get_attr drv (ProgAttr i ''egg_timer'')) (\<lambda>egg.
     io_return (VDict
       [ (''program_id'', VInt i), (''rpm'', program_rpm), (''mode'', label),
         (''schedule_start'', sched_start), (''schedule_end'', sched_end), (''egg_timer'', egg) ]))))))))"

text \<open>The properties of the pump that the response copies under their own names, in the
  order of the source.\<close>

definition config_attrs :: "string list" where
  "config_attrs =
    [ ''ramp'', ''celsius'', ''fahrenheit'', ''contrast'', ''address'', ''id'', ''ampm'',
      ''max_rpm'', ''min_rpm'', ''quick_rpm'', ''quick_timer'', ''prime_enable'',
      ''prime_max_time'', ''prime_sensitivity'', ''prime_delay'', ''antifreeze_enable'',
      ''antifreeze_rpm'', ''antifreeze_temp'', ''svrs_restart_enable'',
      ''svrs_restart_timer'', ''time_out_timer'' ]"

definition datetime_dict :: "(string \<times> int) list \<Rightarrow> val \<Rightarrow> ('d, val) io" where
  "datetime_dict WEEKDAYS dt =
     io_bind (io_lift (subscript dt 0)) (\<lambda>hour.
     io_bind (io_lift (subscript dt 1)) (\<lambda>minute.
     io_bind (io_lift (subscript dt 2)) (\<lambda>day.
     io_bind (io_lift (weekday_name WEEKDAYS day)) (\<lambda>dow.
     io_bind (io_lift (subscript dt 3)) (\<lambda>dom.
     io_bind (io_lift (subscript dt 4)) (\<lambda>month.
     io_bind (io_lift (subscript dt 5)) (\<lambda>year.
     io_bind (io_lift (subscript dt 6)) (\<lambda>dst.
     io_return (VDict
       [ (''hour'', hour), (''minute'', minute), (''dow'', dow), (''dom'', dom),
         (''month'', month), (''year'', year), (''dst'', dst) ])))))))))"

text \<open>The body of \<open>get_config\<close>; \<open>WEEKDAYS\<close> is the table of \<^verbatim>\<open>pypentair.pump\<close>.\<close>

definition get_config_body :: "'d driver \<Rightarrow> (string \<times> int) list \<Rightarrow> ('d, val) io" where
  "get_config_body drv WEEKDAYS =
     io_bind (new_pump drv) (\<lambda>_.
     io_bind (io_map (read_program drv) [1, 2, 3, 4]) (\<lambda>programs.
     io_bind (get_attr drv (Attr ''dt'')) (\<lambda>dt.
     io_bind (get_attr drv (Attr ''run'')) (\<lambda>run.
     io_bind (io_map (\<lambda>name. get_attr drv (Attr name)) config_attrs) (\<lambda>settings.
     io_bind (get_attr drv (Setting ''RUNNING_PROGRAM'')) (\<lambda>stored.
     io_bind (io_lift (floor_div8 stored)) (\<lambda>running.
     io_bind (datetime_dict WEEKDAYS dt) (\<lambda>datetime.
     io_return (VDict
       (zip config_attrs settings @
        [ (''running_program'', running), (''datetime'', datetime),
          (''programs'', VList programs) ]))))))))))"

definition get_config :: "'d driver \<Rightarrow> (string \<times> int) list \<Rightarrow> ('d, val) io" where
  "get_config drv WEEKDAYS = except_Exception (get_config_body drv WEEKDAYS)"

section \<open>The field table of /control\<close>

text \<open>
  The contract of the validation layer, written from the table of fields of the
  specification and independently of the blocks of the handler: a field of the request is
  absent, valid (and then stands for one write, its effect) or invalid. The Boolean fields
  have no range. A timer is a pair of hours 0 to 9 and minutes 0 to 59 at the head of its
  list.
\<close>

datatype verdict = Absent | Valid attr val | Invalid

definition spec_flag :: "bool option \<Rightarrow> attr \<Rightarrow> verdict" where
  "spec_flag fld a = (case fld of None \<Rightarrow> Absent | Some b \<Rightarrow> Valid a (VBool b))"

definition spec_range :: "int option \<Rightarrow> int \<Rightarrow> int \<Rightarrow> attr \<Rightarrow> verdict" where
  "spec_range fld lo hi a =
     (case fld of
        None \<Rightarrow> Absent
      | Some v \<Rightarrow> if lo \<le> v \<and> v \<le> hi then Valid a (VInt v) else Invalid)"

definition spec_timer :: "int list option \<Rightarrow> attr \<Rightarrow> verdict" where
  "spec_timer fld a =
     (case fld of
        None \<Rightarrow> Absent
      | Some xs \<Rightarrow>
          (case xs of
             h # m # rest \<Rightarrow>
               if 0 \<le> h \<and> h \<le> 9 \<and> 0 \<le> m \<and> m \<le> 59 then Valid a (VList (map VInt xs))
               else Invalid
           | _ \<Rightarrow> Invalid))"

text \<open>The fields in the order of the \<open>PumpControl\<close> model, each with its range and effect.\<close>

definition spec_fields :: "PumpControl \<Rightarrow> verdict list" where
  "spec_fields control =
    [ (case state control of
         None \<Rightarrow> Absent
       | Some b \<Rightarrow> Valid (Attr ''run'') (VInt (if b then 0x0A else 0x04))),
      spec_range (speed control) 450 3450 (Attr ''trpm''),
      spec_range (ramp control) 100 200 (Attr ''ramp''),
      spec_flag (celsius control) (Attr ''celsius''),
      spec_flag (fahrenheit control) (Attr ''fahrenheit''),
      spec_range (contrast control) 1 3 (Attr ''contrast''),
      spec_range (address control) 96 97 (Attr ''address''),
      spec_range (id_field control) 1 2 (Attr ''id''),
      spec_flag (ampm control) (Attr ''ampm''),
      spec_range (max_rpm control) 3445 3450 (Attr ''max_rpm''),
      spec_range (min_rpm control) 1100 1105 (Attr ''min_rpm''),
      spec_range (quick_rpm control) 2000 3000 (Attr ''quick_rpm''),
      spec_timer (quick_timer control) (Attr ''quick_timer''),
      spec_flag (prime_enable control) (Attr ''prime_enable''),
      spec_range (prime_max_time control) 1 30 (Attr ''prime_max_time''),
      spec_range (prime_sensitivity control) 1 100 (Attr ''prime_sensitivity''),
      spec_range (prime_delay control) 1 600 (Attr ''prime_delay''),
      spec_flag (antifreeze_enable control) (Attr ''antifreeze_enable''),
      spec_range (antifreeze_rpm control) 1100 3000 (Attr ''antifreeze_rpm''),
      spec_range (antifreeze_temp control) 40 50 (Attr ''antifreeze_temp''),
      spec_flag (svrs_restart_enable control) (Attr ''svrs_restart_enable''),
      spec_range (svrs_restart_timer control) 30 300 (Attr ''svrs_restart_timer''),
      spec_timer (time_out_timer control) (Attr ''time_out_timer''),
      (case running_program control of
         None \<Rightarrow> Absent
       | Some v \<Rightarrow>
           if 1 \<le> v \<and> v \<le> 4 then Valid (Setting ''RUNNING_PROGRAM'') (VInt (v * 8))
           else Invalid),
      spec_range (selected_program control) 1 8 (Attr ''selected_program'') ]"

text \<open>The writes that a list of fields stands for: those of its valid fields, in order.\<close>

fun valid_writes :: "verdict list \<Rightarrow> (attr \<times> val) list" where
  "valid_writes [] = []"
| "valid_writes (Valid a v # fs) = (a, v) # valid_writes fs"
| "valid_writes (f # fs) = valid_writes fs"

text \<open>A block of the handler agrees with the verdict of the table on its field.\<close>

fun agrees :: "action \<Rightarrow> verdict \<Rightarrow> bool" where
  "agrees Skip Absent = True"
| "agrees (Write a v) (Valid a' v') = (a = a' \<and> v = v')"
| "agrees (Raise e) Invalid = True"
| "agrees b f = False"

section \<open>A register-file driver\<close>

text \<open>
  The simplest device the driver interface admits: a store of one value per attribute;
  a write replaces the value and a read returns it, the status dictionary is stored too,
  and no call ever raises. It serves as the concrete device of the examples.
\<close>

record regfile =
  regs :: "attr \<Rightarrow> val"
  stat :: status

definition reg_driver :: "regfile driver" where
  "reg_driver =
     \<lparr> pump_new = (\<lambda>d. (None, d)),
       pump_get = (\<lambda>a d. (Inr (regs d a), d)),
       pump_set = (\<lambda>a v d. (None, d\<lparr>regs := (regs d)(a := v)\<rparr>)),
       pump_program = (\<lambda>i d. (None, d)),
       pump_status = (\<lambda>d. (Inr (stat d), d)) \<rparr>"

text \<open>An idle device: every register holds 0, the clock register a seven-entry list, and
  the status dictionary is empty.\<close>

definition idle_regs :: "attr \<Rightarrow> val" where
  "idle_regs = (\<lambda>a. VInt 0)(Attr ''dt'' := VList (map VInt [0, 0, 1, 1, 1, 2000, 0]))"

definition idle :: regfile where
  "idle = \<lparr> regs = idle_regs, stat = Status None None None None None \<rparr>"

section \<open>How the blocks run\<close>

lemmas io_defs = io_bind_def io_return_def io_raise_def io_lift_def new_pump_def set_attr_def
  get_attr_def open_program_def read_status_def except_Exception_def

lemmas block_defs = flag_block_def range_block_def timer_block_def state_block_def
  running_program_block_def schedule_block_def

lemma set_attr_ok:
  assumes "\<forall>a v d. fst (pump_set drv a v d) = None"
  shows "set_attr drv a v s =
    (Inr (), \<lparr>dev = snd (pump_set drv a v (dev s)), issued = issued s @ [(a, v)]\<rparr>)"
proof -
  from assms have "fst (pump_set drv a v (dev s)) = None" by blast
  then show ?thesis
    by (cases "pump_set drv a v (dev s)") (simp add: set_attr_def)
qed

lemma new_pump_ok:
  "pump_new drv (dev s) = (None, d0) \<Longrightarrow> new_pump drv s = (Inr (), s\<lparr>dev := d0\<rparr>)"
  by (simp add: new_pump_def)

lemma perform_actions:
  assumes nofail: "\<forall>a v d. fst (pump_set drv a v d) = None"
  shows "io_seq (map (perform drv) acts) s =
    ((case first_raise acts of None \<Rightarrow> Inr () | Some e \<Rightarrow> Inl e),
     \<lparr>dev = apply_writes drv (writes_of (before_raise acts)) (dev s),
      issued = issued s @ writes_of (before_raise acts)\<rparr>)"
proof (induction acts arbitrary: s)
  case Nil
  show ?case by (simp add: io_return_def)
next
  case (Cons b acts)
  show ?case
  proof (cases b)
    case Skip
    then show ?thesis using Cons.IH by (simp add: io_bind_def io_return_def)
  next
    case (Write a v)
    then show ?thesis using Cons.IH
      by (simp add: io_bind_def set_attr_ok [OF nofail])
  next
    case (Raise e)
    then show ?thesis by (simp add: io_bind_def io_raise_def)
  qed
qed

lemma first_raise_split:
  "first_raise pre = None \<Longrightarrow>
     first_raise (pre @ Raise e # post) = Some e \<and> before_raise (pre @ Raise e # post) = pre"
proof (induction pre)
  case Nil
  show ?case by simp
next
  case (Cons b pre)
  then show ?case by (cases b) simp_all
qed

lemma first_raise_none: "first_raise acts = None \<Longrightarrow> before_raise acts = acts"
proof (induction acts)
  case Nil
  show ?case by simp
next
  case (Cons b acts)
  then show ?case by (cases b) simp_all
qed

lemma raise_at:
  assumes "k < length acts" and "acts ! k = Raise e" and "first_raise (take k acts) = None"
  shows "first_raise acts = Some e"
proof -
  have "acts = take k acts @ Raise e # drop (Suc k) acts"
    using assms(1,2) by (metis id_take_nth_drop)
  then show ?thesis
    using first_raise_split [OF assms(3), of e "drop (Suc k) acts"] by simp
qed

text \<open>The handler in closed form, for a driver whose writes do not fail.\<close>

lemma control_pump_run:
  assumes nofail: "\<forall>a v d. fst (pump_set drv a v d) = None"
    and new: "pump_new drv (dev s) = (None, d0)"
  shows "control_pump drv control s =
    ((case first_raise (control_actions control) of
        None \<Rightarrow> Inr success
      | Some e \<Rightarrow> Inl (HTTPException 500 (Str e))),
     \<lparr>dev = apply_writes drv (writes_of (before_raise (control_actions control))) d0,
      issued = issued s @ writes_of (before_raise (control_actions control))\<rparr>)"
  by (simp add: control_pump_def except_Exception_def control_pump_body_def io_bind_def
      io_return_def new_pump_ok [OF new] perform_actions [OF nofail] split: option.splits)

lemma control_actions_length: "length (control_actions control) = 25"
  by (simp add: control_actions_def)

lemma control_actions_12:
  "control_actions control ! 12 =
     timer_block (quick_timer control) (Attr ''quick_timer'') ''Quick timer hours 0-9, minutes 0-59''"
  by (simp add: control_actions_def)

lemma control_actions_22:
  "control_actions control ! 22 =
     timer_block (time_out_timer control) (Attr ''time_out_timer'')
       ''Time out timer hours 0-9, minutes 0-59''"
  by (simp add: control_actions_def)

lemma perform_success:
  "io_seq (map (perform drv) acts) s = (Inr u, s') \<Longrightarrow>
     first_raise acts = None \<and> issued s' = issued s @ writes_of acts"
proof (induction acts arbitrary: s)
  case Nil
  then show ?case by (simp add: io_return_def)
next
  case (Cons b acts)
  show ?case
  proof (cases b)
    case Skip
    with Cons show ?thesis by (simp add: io_bind_def io_return_def)
  next
    case (Write a v)
    from Cons.prems Write obtain s1 where
      1: "set_attr drv a v s = (Inr (), s1)"
      and 2: "io_seq (map (perform drv) acts) s1 = (Inr u, s')"
      by (auto simp: io_bind_def split: prod.splits sum.splits)
    from 1 have "issued s1 = issued s @ [(a, v)]"
      by (auto simp: set_attr_def split: prod.splits option.splits)
    with Cons.IH [OF 2] Write show ?thesis by simp
  next
    case (Raise e)
    with Cons.prems show ?thesis by (simp add: io_bind_def io_raise_def)
  qed
qed

lemma control_pump_success:
  assumes "control_pump drv control s = (Inr body, s')"
  shows "first_raise (control_actions control) = None
       \<and> issued s' = issued s @ writes_of (control_actions control)"
proof -
  from assms obtain s1 u where
    1: "new_pump drv s = (Inr (), s1)"
    and 2: "io_seq (map (perform drv) (control_actions control)) s1 = (Inr u, s')"
    by (auto simp: control_pump_def except_Exception_def control_pump_body_def io_bind_def
        io_return_def split: prod.splits sum.splits)
  from 1 have "issued s1 = issued s"
    by (auto simp: new_pump_def split: prod.splits option.splits)
  with perform_success [OF 2] show ?thesis by simp
qed

lemma writes_of_append: "writes_of (xs @ ys) = writes_of xs @ writes_of ys"
proof (induction xs)
  case Nil
  show ?case by simp
next
  case (Cons b xs)
  then show ?case by (cases b) simp_all
qed


lemma apply_writes_append:
  "apply_writes drv (ws @ ws') d = apply_writes drv ws' (apply_writes drv ws d)"
  by (induction ws arbitrary: d) auto





lemma io_map_state:
  assumes "\<And>x s. snd (f x s) = s"
  shows "snd (io_map f xs s) = s"
proof (induction xs)
  case Nil
  show ?case by (simp add: io_return_def)
next
  case (Cons x xs)
  obtain r1 where 1: "f x s = (r1, s)"
    using assms [of x s] by (cases "f x s") simp
  obtain r2 where 2: "io_map f xs s = (r2, s)"
    using Cons.IH by (cases "io_map f xs s") simp
  show ?case
    by (cases r1; cases r2) (simp_all add: io_bind_def io_return_def 1 2)
qed

subsection \<open>The register-file driver\<close>

lemma reg_nofail: "\<forall>a v d. fst (pump_set reg_driver a v d) = None"
  by (simp add: reg_driver_def)

lemma reg_new: "new_pump reg_driver s = (Inr (), s)"
  by (simp add: new_pump_def reg_driver_def)

lemma reg_get: "get_attr reg_driver a s = (Inr (regs (dev s) a), s)"
  by (simp add: get_attr_def reg_driver_def)


lemma reg_open: "open_program reg_driver i s = (Inr (), s)"
  by (simp add: open_program_def reg_driver_def)

lemma apply_writes_reg_other:
  "a \<notin> fst ` set ws \<Longrightarrow> regs (apply_writes reg_driver ws d) a = regs d a"
  by (induction ws arbitrary: d) (auto simp: reg_driver_def)

lemma reg_read_program:
  "read_program reg_driver i s =
     ((case mode_label (regs (dev s) (ProgAttr i ''mode'')) of
         Inl e \<Rightarrow> Inl e
       | Inr label \<Rightarrow> Inr (VDict
           [ (''program_id'', VInt i), (''rpm'', regs (dev s) (ProgAttr i ''rpm'')),
             (''mode'', label),
             (''schedule_start'', regs (dev s) (ProgAttr i ''schedule_start'')),
             (''schedule_end'', regs (dev s) (ProgAttr i ''schedule_end'')),
             (''egg_timer'', regs (dev s) (ProgAttr i ''egg_timer'')) ])), s)"
  by (simp add: read_program_def io_bind_def io_lift_def io_return_def reg_get reg_open
      split: sum.splits)

lemma reg_programs_state: "snd (io_map (read_program reg_driver) xs s) = s"
  by (rule io_map_state) (simp add: reg_read_program)

lemma reg_settings:
  "io_map (\<lambda>name. get_attr reg_driver (Attr name)) names s =
     (Inr (map (\<lambda>name. regs (dev s) (Attr name)) names), s)"
  by (induction names) (simp_all add: io_return_def io_bind_def reg_get)

lemma datetime_dict_state: "snd (datetime_dict WEEKDAYS dt s) = s"
  by (simp add: datetime_dict_def io_bind_def io_lift_def io_return_def split: sum.splits)

section \<open>Validation failures of /control and /program\<close>

text \<open>
  C1. A request to \<open>POST /control\<close> whose only field is \<open>speed = 449\<close>, on a device that
  never fails: the block of \<open>speed\<close> raises \<open>HTTPException(400, "Speed must be between 450
  and 3450 RPM")\<close>, the \<^verbatim>\<open>except Exception\<close> clause of the handler catches it, and the
  response is an HTTP 500 whose detail is the text of the caught exception. No write is
  issued.
\<close>

theorem control_speed_449_status_500:
  "control_pump reg_driver (no_fields\<lparr>speed := Some 449\<rparr>) \<lparr>dev = idle, issued = []\<rparr> =
     (Inl (HTTPException 500
        (Str (HTTPException 400 (Lit ''Speed must be between 450 and 3450 RPM'')))),
      \<lparr>dev = idle, issued = []\<rparr>)"
  by (simp add: control_pump_def control_pump_body_def control_actions_def io_defs block_defs
      no_fields_def reg_driver_def)

text \<open>
  C2. The boundaries of \<open>speed\<close> on a device that never fails: 450 and 3450 are accepted,
  with exactly one write (of the target RPM) and the success body; 449 and 3451 are
  rejected, and the status of the response is 500, not 400.
\<close>

theorem control_speed_boundaries:
  "control_pump reg_driver (no_fields\<lparr>speed := Some 450\<rparr>) \<lparr>dev = idle, issued = []\<rparr> =
     (Inr success,
      \<lparr>dev = idle\<lparr>regs := (regs idle)(Attr ''trpm'' := VInt 450)\<rparr>,
       issued = [(Attr ''trpm'', VInt 450)]\<rparr>)
   \<and> control_pump reg_driver (no_fields\<lparr>speed := Some 3450\<rparr>) \<lparr>dev = idle, issued = []\<rparr> =
     (Inr success,
      \<lparr>dev = idle\<lparr>regs := (regs idle)(Attr ''trpm'' := VInt 3450)\<rparr>,
       issued = [(Attr ''trpm'', VInt 3450)]\<rparr>)
   \<and> status_code (fst (control_pump reg_driver (no_fields\<lparr>speed := Some 449\<rparr>)
        \<lparr>dev = idle, issued = []\<rparr>)) = 500
   \<and> status_code (fst (control_pump reg_driver (no_fields\<lparr>speed := Some 3451\<rparr>)
        \<lparr>dev = idle, issued = []\<rparr>)) = 500"
  by (simp add: control_pump_def control_pump_body_def control_actions_def io_defs block_defs
      no_fields_def reg_driver_def)

text \<open>
  C3. \<open>POST /program\<close> with \<open>program_id = 9\<close>, whatever the other fields, the driver and the
  device: the handler raises \<open>HTTPException(400, "Program ID must be between 1 and 8")\<close>
  before it touches the driver, its own \<^verbatim>\<open>except Exception\<close> clause catches it, and the
  response is an HTTP 500. The session is unchanged: no write is issued.
\<close>

theorem program_id_9_status_500:
  "control_program drv (control\<lparr>program_id := 9\<rparr>) s =
     (Inl (HTTPException 500
        (Str (HTTPException 400 (Lit ''Program ID must be between 1 and 8'')))), s)"
  by (simp add: control_program_def control_program_body_def except_Exception_def io_raise_def)

text \<open>
  C4. \<open>POST /program\<close> for program 1 with \<open>rpm = 1000\<close> while \<^verbatim>\<open>pump.mode\<close> reads 1 (running):
  the handler raises \<open>HTTPException(400, "Pump is currently running, cannot modify
  program")\<close>, which its \<^verbatim>\<open>except Exception\<close> clause turns into an HTTP 500. No write is
  issued and the device is unchanged.
\<close>

theorem program_while_running_status_500:
  "control_program reg_driver
     \<lparr>program_id = 1, rpm = Some 1000, mode = None, schedule_start = None,
      schedule_end = None, egg_timer = None\<rparr>
     \<lparr>dev = idle\<lparr>regs := (regs idle)(Attr ''mode'' := VInt 1)\<rparr>, issued = []\<rparr> =
   (Inl (HTTPException 500
      (Str (HTTPException 400 (Lit ''Pump is currently running, cannot modify program'')))),
    \<lparr>dev = idle\<lparr>regs := (regs idle)(Attr ''mode'' := VInt 1)\<rparr>, issued = []\<rparr>)"
  by (simp add: control_program_def control_program_body_def io_defs reg_driver_def)

text \<open>
  C8. \<open>selected_program = 9\<close> is rejected and \<open>selected_program = 8\<close> is accepted and
  written, so the admissible range is 1 to 8; the exception raised inside the handler for
  the rejected value carries the detail "Selected program must be between 1 and 4".
\<close>

theorem selected_program_message:
  "fst (control_pump_body reg_driver (no_fields\<lparr>selected_program := Some 9\<rparr>)
          \<lparr>dev = idle, issued = []\<rparr>) =
     Inl (HTTPException 400 (Lit ''Selected program must be between 1 and 4''))
   \<and> control_pump_body reg_driver (no_fields\<lparr>selected_program := Some 8\<rparr>)
          \<lparr>dev = idle, issued = []\<rparr> =
     (Inr success,
      \<lparr>dev = idle\<lparr>regs := (regs idle)(Attr ''selected_program'' := VInt 8)\<rparr>,
       issued = [(Attr ''selected_program'', VInt 8)]\<rparr>)"
  by (simp add: control_pump_body_def control_actions_def io_defs block_defs no_fields_def
      reg_driver_def)

section \<open>Partial updates by /control\<close>

lemmas spec_defs = spec_fields_def spec_flag_def spec_range_def spec_timer_def

text \<open>Every block of the handler agrees with the table on its field.\<close>

lemma flag_agrees: "agrees (flag_block fld a) (spec_flag fld a)"
  by (cases fld) (simp_all add: flag_block_def spec_flag_def)

lemma range_agrees: "agrees (range_block fld lo hi a msg) (spec_range fld lo hi a)"
  by (cases fld) (simp_all add: range_block_def spec_range_def)

lemma timer_agrees: "agrees (timer_block fld a msg) (spec_timer fld a)"
proof (cases fld)
  case None
  then show ?thesis by (simp add: timer_block_def spec_timer_def)
next
  case (Some xs)
  show ?thesis
  proof (cases xs)
    case Nil
    with Some show ?thesis by (simp add: timer_block_def spec_timer_def)
  next
    case (Cons h rest)
    with Some show ?thesis
      by (cases rest) (simp_all add: timer_block_def spec_timer_def)
  qed
qed

lemma state_agrees:
  "agrees (state_block fld)
     (case fld of None \<Rightarrow> Absent
      | Some b \<Rightarrow> Valid (Attr ''run'') (VInt (if b then 0x0A else 0x04)))"
  by (cases fld) (simp_all add: state_block_def)

lemma running_program_agrees:
  "agrees (running_program_block fld)
     (case fld of None \<Rightarrow> Absent
      | Some v \<Rightarrow> if 1 \<le> v \<and> v \<le> 4 then Valid (Setting ''RUNNING_PROGRAM'') (VInt (v * 8))
                  else Invalid)"
  by (cases fld) (simp_all add: running_program_block_def)

lemma control_actions_agree: "list_all2 agrees (control_actions control) (spec_fields control)"
  unfolding control_actions_def spec_fields_def
  by (intro list_all2_Cons [THEN iffD2] conjI
        flag_agrees range_agrees timer_agrees state_agrees running_program_agrees) simp

lemma agrees_split:
  "list_all2 agrees acts (earlier @ Invalid # later) \<Longrightarrow> Invalid \<notin> set earlier \<Longrightarrow>
     \<exists>e. first_raise acts = Some e \<and> writes_of (before_raise acts) = valid_writes earlier"
proof (induction earlier arbitrary: acts)
  case Nil
  then obtain b rest where "acts = b # rest" and "agrees b Invalid"
    by (auto simp: list_all2_Cons2)
  then show ?case by (cases b) simp_all
next
  case (Cons f earlier)
  from Cons.prems(1) obtain b rest where
    acts: "acts = b # rest" and b: "agrees b f"
    and rest: "list_all2 agrees rest (earlier @ Invalid # later)"
    by (auto simp: list_all2_Cons2)
  from Cons.prems(2) have f: "f \<noteq> Invalid" and e: "Invalid \<notin> set earlier" by auto
  from Cons.IH [OF rest e] obtain x where
    ih: "first_raise rest = Some x" "writes_of (before_raise rest) = valid_writes earlier"
    by blast
  from b f ih acts show ?case
    by (cases b; cases f) simp_all
qed

text \<open>
  C7. \<open>control_pump\<close> receives the parsed \<open>PumpControl\<close> model, not the JSON text, so the
  order of the fields in the JSON plays no part: the fields are processed in the one order
  of \<open>spec_fields\<close>. On a device whose writes do not fail, let some field be invalid and
  let no field \<open>earlier\<close> in the order be invalid. Then the request fails, the writes issued
  are exactly the writes of the valid fields among \<open>earlier\<close>, each with the value the table
  gives it and in that order, the device is the one these writes leave behind (nothing is
  undone), and nothing is written for the invalid field or for a field \<open>later\<close> in the order.
\<close>

theorem control_pump_partial_update:
  assumes nofail: "\<forall>a v d. fst (pump_set drv a v d) = None"
    and new: "pump_new drv (dev s) = (None, d0)"
    and order: "spec_fields control = earlier @ Invalid # later"
    and valid: "Invalid \<notin> set earlier"
  shows "(\<exists>e. fst (control_pump drv control s) = Inl (HTTPException 500 (Str e)))
       \<and> snd (control_pump drv control s) =
           \<lparr>dev = apply_writes drv (valid_writes earlier) d0,
            issued = issued s @ valid_writes earlier\<rparr>"
proof -
  have "list_all2 agrees (control_actions control) (earlier @ Invalid # later)"
    using control_actions_agree [of control] order by simp
  from agrees_split [OF this valid] obtain e where
    "first_raise (control_actions control) = Some e"
    "writes_of (before_raise (control_actions control)) = valid_writes earlier"
    by blast
  then show ?thesis
    by (simp add: control_pump_run [OF nofail new])
qed

theorem control_pump_partial_update_witness:
  "(\<forall>a v d. fst (pump_set reg_driver a v d) = None)
   \<and> pump_new reg_driver idle = (None, idle)
   \<and> spec_fields
        (no_fields\<lparr>state := Some True, speed := Some 3000, ramp := Some 99, contrast := Some 2\<rparr>) =
      [Valid (Attr ''run'') (VInt 10), Valid (Attr ''trpm'') (VInt 3000)] @
      Invalid #
      [Absent, Absent, Valid (Attr ''contrast'') (VInt 2), Absent, Absent, Absent, Absent,
       Absent, Absent, Absent, Absent, Absent, Absent, Absent, Absent, Absent, Absent, Absent,
       Absent, Absent, Absent, Absent]
   \<and> Invalid \<notin> set [Valid (Attr ''run'') (VInt 10), Valid (Attr ''trpm'') (VInt 3000)]
   \<and> control_pump reg_driver
        (no_fields\<lparr>state := Some True, speed := Some 3000, ramp := Some 99, contrast := Some 2\<rparr>)
        \<lparr>dev = idle, issued = []\<rparr> =
      (Inl (HTTPException 500 (Str (HTTPException 400 (Lit ''Ramp must be between 100 and 200'')))),
       \<lparr>dev = idle\<lparr>regs := (regs idle)(Attr ''run'' := VInt 10, Attr ''trpm'' := VInt 3000)\<rparr>,
        issued = [(Attr ''run'', VInt 10), (Attr ''trpm'', VInt 3000)]\<rparr>)"
proof -
  let ?c = "no_fields\<lparr>state := Some True, speed := Some 3000, ramp := Some 99, contrast := Some 2\<rparr>"
  have run: "fst (control_pump reg_driver ?c \<lparr>dev = idle, issued = []\<rparr>) =
      Inl (HTTPException 500 (Str (HTTPException 400 (Lit ''Ramp must be between 100 and 200''))))"
    by (simp add: control_pump_def control_pump_body_def control_actions_def io_defs block_defs
        no_fields_def reg_driver_def)
  have eq: "\<And>p x y. fst p = x \<Longrightarrow> snd p = y \<Longrightarrow> p = (x, y)" by auto
  show ?thesis
    using control_pump_partial_update [of reg_driver "\<lparr>dev = idle, issued = []\<rparr>" idle ?c
     "[Valid (Attr ''run'') (VInt 10), Valid (Attr ''trpm'') (VInt 3000)]"
     "[Absent, Absent, Valid (Attr ''contrast'') (VInt 2), Absent, Absent, Absent, Absent,
       Absent, Absent, Absent, Absent, Absent, Absent, Absent, Absent, Absent, Absent, Absent,
       Absent, Absent, Absent, Absent]"] run
    by (simp add: reg_driver_def spec_defs no_fields_def eq)
qed

section \<open>Timer lists that are too short\<close>

lemma timer_block_short:
  assumes "length xs < 2" and "xs = [] \<or> (0 \<le> hd xs \<and> hd xs \<le> 9)"
  shows "timer_block (Some xs) a msg = Raise IndexError"
proof (cases xs)
  case Nil
  then show ?thesis by (simp add: timer_block_def)
next
  case (Cons h rest)
  with assms have "rest = []" and "0 \<le> h \<and> h \<le> 9" by simp_all
  with Cons show ?thesis by (simp add: timer_block_def)
qed

lemma perform_not_IndexError:
  "first_raise acts \<noteq> Some IndexError \<Longrightarrow>
     fst (io_seq (map (perform drv) acts) s) \<noteq> Inl IndexError"
proof (induction acts arbitrary: s)
  case Nil
  show ?case by (simp add: io_return_def)
next
  case (Cons b acts)
  show ?case
  proof (cases b)
    case Skip
    with Cons show ?thesis by (simp add: io_bind_def io_return_def)
  next
    case (Write a v)
    with Cons show ?thesis
      by (simp add: io_bind_def set_attr_def split: prod.splits option.splits)
  next
    case (Raise e)
    with Cons.prems show ?thesis by (simp add: io_bind_def io_raise_def)
  qed
qed

lemma schedule_block_no_IndexError: "schedule_block fld a msg \<noteq> Raise IndexError"
  by (simp add: schedule_block_def split: option.splits list.splits)

lemma range_block_no_IndexError: "range_block fld lo hi a msg \<noteq> Raise IndexError"
  by (simp add: range_block_def split: option.splits)

lemma program_actions_no_IndexError: "first_raise (program_actions control) \<noteq> Some IndexError"
proof -
  have step: "\<And>b acts. b \<noteq> Raise IndexError \<Longrightarrow> first_raise acts \<noteq> Some IndexError
     \<Longrightarrow> first_raise (b # acts) \<noteq> Some IndexError"
    subgoal for b acts by (cases b) simp_all
    done
  show ?thesis
    unfolding program_actions_def
    by (intro step schedule_block_no_IndexError range_block_no_IndexError) simp
qed

lemma mode_block_no_IndexError: "fst (mode_block drv pid fld s) \<noteq> Inl IndexError"
  by (simp add: mode_block_def io_bind_def io_return_def io_raise_def get_attr_def set_attr_def
      split: option.splits prod.splits sum.splits)

lemma control_program_body_no_IndexError:
  "fst (control_program_body drv control s) \<noteq> Inl IndexError"
proof -
  have seq: "\<And>r. fst (io_seq (map (perform drv) (program_actions control)) r) \<noteq> Inl IndexError"
    by (rule perform_not_IndexError [OF program_actions_no_IndexError])
  have tail: "\<And>r. fst (io_bind (io_seq (map (perform drv) (program_actions control)))
                      (\<lambda>_. io_return success) r) \<noteq> Inl IndexError"
    subgoal for r
      using seq [of r]
      by (cases "io_seq (map (perform drv) (program_actions control)) r")
         (auto simp: io_bind_def io_return_def split: sum.splits)
    done
  have mb: "\<And>r. fst (io_bind (mode_block drv (program_id control) (mode control))
              (\<lambda>_. io_bind (io_seq (map (perform drv) (program_actions control)))
                      (\<lambda>_. io_return success)) r) \<noteq> Inl IndexError"
    subgoal for r
      using mode_block_no_IndexError [of drv "program_id control" "mode control" r] tail
      by (cases "mode_block drv (program_id control) (mode control) r")
         (auto simp: io_bind_def split: sum.splits)
    done
  show ?thesis
    using mb
    by (simp add: control_program_body_def io_bind_def io_raise_def new_pump_def get_attr_def
        open_program_def split: prod.splits sum.splits option.splits)
qed

text \<open>
  C9, as amended. Let \<open>quick_timer\<close> (block 12 of the order) or \<open>time_out_timer\<close> (block 22)
  be present as a list \<open>xs\<close> of fewer than two elements that is empty or whose one element
  lies in 0..9, on a device that does not fail and in a request none of whose earlier blocks
  raises. Then the block indexes past the end of the list, and the handler answers HTTP 500
  for the \<open>IndexError\<close>. A one-element list whose element lies outside 0..9 fails the test
  of the hours first, and the block raises the \<open>HTTPException\<close> of its range instead. The
  body of \<open>/program\<close> never raises \<open>IndexError\<close>: its list fields are tested for length 2
  before they are indexed.
\<close>

theorem timer_list_too_short:
  assumes nofail: "\<forall>a v d. fst (pump_set drv a v d) = None"
    and new: "pump_new drv (dev s) = (None, d0)"
    and short: "length xs < 2"
    and hour: "xs = [] \<or> (0 \<le> hd xs \<and> hd xs \<le> 9)"
    and reached:
      "quick_timer control = Some xs \<and> first_raise (take 12 (control_actions control)) = None
       \<or> time_out_timer control = Some xs \<and> first_raise (take 22 (control_actions control)) = None"
    and outside: "h < 0 \<or> 9 < h"
  shows "fst (control_pump drv control s) = Inl (HTTPException 500 (Str IndexError))
       \<and> timer_block (Some [h]) a msg = Raise (HTTPException 400 (Lit msg))
       \<and> fst (control_program_body drv program r) \<noteq> Inl IndexError"
proof -
  have "first_raise (control_actions control) = Some IndexError"
    using reached
  proof
    assume q: "quick_timer control = Some xs \<and>
               first_raise (take 12 (control_actions control)) = None"
    show ?thesis
      by (rule raise_at [of 12])
         (simp_all add: control_actions_length control_actions_12 q
            timer_block_short [OF short hour])
  next
    assume t: "time_out_timer control = Some xs \<and>
               first_raise (take 22 (control_actions control)) = None"
    show ?thesis
      by (rule raise_at [of 22])
         (simp_all add: control_actions_length control_actions_22 t
            timer_block_short [OF short hour])
  qed
  moreover have "timer_block (Some [h]) a msg = Raise (HTTPException 400 (Lit msg))"
    using outside by (auto simp: timer_block_def)
  ultimately show ?thesis
    by (simp add: control_pump_run [OF nofail new] control_program_body_no_IndexError)
qed

theorem timer_list_too_short_witness:
  "(\<forall>a v d. fst (pump_set reg_driver a v d) = None)
   \<and> pump_new reg_driver idle = (None, idle)
   \<and> length [5::int] < 2 \<and> 0 \<le> hd [5::int] \<and> hd [5::int] \<le> 9
   \<and> quick_timer (no_fields\<lparr>speed := Some 1000, quick_timer := Some [5]\<rparr>) = Some [5]
   \<and> first_raise (take 12 (control_actions (no_fields\<lparr>speed := Some 1000, quick_timer := Some [5]\<rparr>)))
       = None
   \<and> (9::int) < 10
   \<and> fst (control_pump reg_driver (no_fields\<lparr>speed := Some 1000, quick_timer := Some [5]\<rparr>)
        \<lparr>dev = idle, issued = []\<rparr>) = Inl (HTTPException 500 (Str IndexError))
   \<and> timer_block (Some [10]) (Attr ''quick_timer'') ''Quick timer hours 0-9, minutes 0-59'' =
       Raise (HTTPException 400 (Lit ''Quick timer hours 0-9, minutes 0-59''))
   \<and> fst (control_program_body reg_driver
        \<lparr>program_id = 1, rpm = None, mode = None, schedule_start = Some [5],
         schedule_end = None, egg_timer = None\<rparr> \<lparr>dev = idle, issued = []\<rparr>) \<noteq> Inl IndexError"
  using timer_list_too_short [of reg_driver "\<lparr>dev = idle, issued = []\<rparr>" idle "[5]"
      "no_fields\<lparr>speed := Some 1000, quick_timer := Some [5]\<rparr>" 10
      "Attr ''quick_timer''" "''Quick timer hours 0-9, minutes 0-59''"
      "\<lparr>program_id = 1, rpm = None, mode = None, schedule_start = Some [5],
         schedule_end = None, egg_timer = None\<rparr>" "\<lparr>dev = idle, issued = []\<rparr>"]
  by (simp add: reg_driver_def control_actions_def block_defs no_fields_def)

text \<open>
  C9 as stated fails for the one-element list \<open>[10]\<close>: no \<open>IndexError\<close> arises, the
  exception behind the HTTP 500 is the \<open>HTTPException\<close> of the range of \<open>quick_timer\<close>.
\<close>

theorem quick_timer_hour_tested_first:
  "length [10::int] < 2
   \<and> fst (control_pump reg_driver (no_fields\<lparr>quick_timer := Some [10]\<rparr>)
        \<lparr>dev = idle, issued = []\<rparr>) =
     Inl (HTTPException 500
       (Str (HTTPException 400 (Lit ''Quick timer hours 0-9, minutes 0-59''))))
   \<and> fst (control_pump reg_driver (no_fields\<lparr>quick_timer := Some [10]\<rparr>)
        \<lparr>dev = idle, issued = []\<rparr>) \<noteq> Inl (HTTPException 500 (Str IndexError))"
  by (simp add: control_pump_def control_pump_body_def control_actions_def io_defs block_defs
      no_fields_def reg_driver_def)

section \<open>The status response\<close>

text \<open>
  C5. When the driver hands over the status dictionary and its time entry (or the default
  \<open>[0, 0]\<close>) has at least two elements, \<open>GET /status\<close> answers 200 with \<open>state\<close> true exactly
  when the \<open>run\<close> entry is present and equals \<open>0x0A\<close>; \<open>speed\<close>, \<open>watts\<close> and \<open>time\<close> are the
  \<open>rpm\<close>, \<open>watts\<close> and \<open>time\<close> entries (0 for an absent number), and nothing is written.
\<close>

theorem get_status_state:
  assumes new: "pump_new drv (dev s) = (None, d1)"
    and st: "pump_status drv d1 = (Inr status, d2)"
    and tm: "(case st_time status of None \<Rightarrow> [0, 0] | Some t \<Rightarrow> t) = hours # minutes # rest"
  shows "get_status drv PUMP_MODES s =
    (Inr (VDict
       [ (''state'', VBool (st_run status = Some 0x0A)),
         (''speed'', VInt (case st_rpm status of None \<Rightarrow> 0 | Some r \<Rightarrow> r)),
         (''watts'', VInt (case st_watts status of None \<Rightarrow> 0 | Some w \<Rightarrow> w)),
         (''mode'', VStr (reverse_get PUMP_MODES
                            (case st_mode status of None \<Rightarrow> 0 | Some m \<Rightarrow> m) ''UNKNOWN'')),
         (''time'', VList [VInt hours, VInt minutes]) ]),
     \<lparr>dev = d2, issued = issued s\<rparr>)"
proof -
  have run: "((case st_run status of None \<Rightarrow> 0 | Some r \<Rightarrow> r) = (10::int)) =
             (st_run status = Some 10)"
    by (cases "st_run status") simp_all
  show ?thesis
    by (simp add: get_status_def get_status_body_def except_Exception_def io_bind_def
        new_pump_ok [OF new] read_status_def st tm py_item_def io_return_def run)
qed

theorem get_status_state_witness:
  "pump_new reg_driver (idle\<lparr>stat := Status (Some 10) (Some 2000) (Some 500) (Some 1) (Some [12, 30])\<rparr>)
     = (None, idle\<lparr>stat := Status (Some 10) (Some 2000) (Some 500) (Some 1) (Some [12, 30])\<rparr>)
   \<and> get_status reg_driver [(''FILTER'', 0), (''MANUAL'', 1)]
       \<lparr>dev = idle\<lparr>stat := Status (Some 10) (Some 2000) (Some 500) (Some 1) (Some [12, 30])\<rparr>,
        issued = []\<rparr> =
     (Inr (VDict [(''state'', VBool True), (''speed'', VInt 2000), (''watts'', VInt 500),
                  (''mode'', VStr ''MANUAL''), (''time'', VList [VInt 12, VInt 30])]),
      \<lparr>dev = idle\<lparr>stat := Status (Some 10) (Some 2000) (Some 500) (Some 1) (Some [12, 30])\<rparr>,
       issued = []\<rparr>)
   \<and> get_status reg_driver [(''FILTER'', 0), (''MANUAL'', 1)]
       \<lparr>dev = idle\<lparr>stat := Status (Some 4) (Some 0) None (Some 0) None\<rparr>, issued = []\<rparr> =
     (Inr (VDict [(''state'', VBool False), (''speed'', VInt 0), (''watts'', VInt 0),
                  (''mode'', VStr ''FILTER''), (''time'', VList [VInt 0, VInt 0])]),
      \<lparr>dev = idle\<lparr>stat := Status (Some 4) (Some 0) None (Some 0) None\<rparr>, issued = []\<rparr>)"
  using get_status_state [of reg_driver
      "\<lparr>dev = idle\<lparr>stat := Status (Some 10) (Some 2000) (Some 500) (Some 1) (Some [12, 30])\<rparr>,
        issued = []\<rparr>"
      "idle\<lparr>stat := Status (Some 10) (Some 2000) (Some 500) (Some 1) (Some [12, 30])\<rparr>"
      "Status (Some 10) (Some 2000) (Some 500) (Some 1) (Some [12, 30])"
      "idle\<lparr>stat := Status (Some 10) (Some 2000) (Some 500) (Some 1) (Some [12, 30])\<rparr>"
      12 30 "[]" "[(''FILTER'', 0), (''MANUAL'', 1)]"]
    get_status_state [of reg_driver
      "\<lparr>dev = idle\<lparr>stat := Status (Some 4) (Some 0) None (Some 0) None\<rparr>, issued = []\<rparr>"
      "idle\<lparr>stat := Status (Some 4) (Some 0) None (Some 0) None\<rparr>"
      "Status (Some 4) (Some 0) None (Some 0) None"
      "idle\<lparr>stat := Status (Some 4) (Some 0) None (Some 0) None\<rparr>"
      0 0 "[]" "[(''FILTER'', 0), (''MANUAL'', 1)]"]
  by (simp add: reg_driver_def reverse_get_def)

section \<open>The round trip of running\_program\<close>

lemma control_actions_tail:
  "control_actions control =
     take 23 (control_actions control) @
     [ running_program_block (running_program control),
       range_block (selected_program control) 1 8 (Attr ''selected_program'')
         ''Selected program must be between 1 and 4'' ]"
  by (simp add: control_actions_def)

lemma running_program_written:
  assumes "1 \<le> n" "n \<le> 4"
  shows "(Setting ''RUNNING_PROGRAM'', VInt (n * 8))
           \<in> set (writes_of (control_actions (control\<lparr>running_program := Some n\<rparr>)))"
proof -
  have "writes_of (control_actions (control\<lparr>running_program := Some n\<rparr>)) =
        writes_of (take 23 (control_actions (control\<lparr>running_program := Some n\<rparr>))) @
        (Setting ''RUNNING_PROGRAM'', VInt (n * 8)) #
        writes_of [range_block (selected_program control) 1 8 (Attr ''selected_program'')
                     ''Selected program must be between 1 and 4'']"
    by (subst control_actions_tail, subst writes_of_append)
       (simp add: running_program_block_def assms)
  then show ?thesis by simp
qed

lemma running_program_stored:
  assumes "1 \<le> n" "n \<le> 4"
  shows "regs (apply_writes reg_driver
                 (writes_of (control_actions (control\<lparr>running_program := Some n\<rparr>))) d)
           (Setting ''RUNNING_PROGRAM'') = VInt (n * 8)"
proof -
  let ?c = "control\<lparr>running_program := Some n\<rparr>"
  let ?last = "writes_of [range_block (selected_program control) 1 8 (Attr ''selected_program'')
                     ''Selected program must be between 1 and 4'']"
  have eq: "writes_of (control_actions ?c) =
        (writes_of (take 23 (control_actions ?c)) @ [(Setting ''RUNNING_PROGRAM'', VInt (n * 8))])
        @ ?last"
    by (subst control_actions_tail, subst writes_of_append)
       (simp add: running_program_block_def assms)
  have other: "Setting ''RUNNING_PROGRAM'' \<notin> fst ` set ?last"
    by (simp add: range_block_def split: option.splits)
  show ?thesis
    unfolding eq
    by (simp only: apply_writes_append apply_writes_reg_other [OF other])
       (simp add: reg_driver_def)
qed

lemma map_of_zip_absent: "k \<notin> set ks \<Longrightarrow> map_of (zip ks vs) k = None"
proof -
  assume "k \<notin> set ks"
  then have "k \<notin> fst ` set (zip ks vs)" by (auto dest: set_zip_leftD)
  then show ?thesis by (simp add: map_of_eq_None_iff)
qed

lemma map_of_settings:
  "map_of (zip config_attrs vs @
           [(''running_program'', v), (''datetime'', dtd), (''programs'', ps)])
     ''running_program'' = Some v"
proof -
  have "''running_program'' \<notin> set config_attrs" by (simp add: config_attrs_def)
  then have "map_of (zip config_attrs vs) ''running_program'' = None"
    by (rule map_of_zip_absent)
  then show ?thesis by (simp add: map_add_def)
qed

lemma reg_config_running_program:
  assumes m: "regs (dev s) (Setting ''RUNNING_PROGRAM'') = VInt m"
    and ok: "fst (get_config reg_driver WEEKDAYS s) = Inr resp"
  shows "dict_get resp ''running_program'' = Some (VInt (m div 8))"
proof -
  obtain r1 where p: "io_map (read_program reg_driver) [1, 2, 3, 4] s = (r1, s)"
    using reg_programs_state [of "[1, 2, 3, 4]" s]
    by (cases "io_map (read_program reg_driver) [1, 2, 3, 4] s") (simp del: io_map.simps)
  obtain r2 where d: "datetime_dict WEEKDAYS (regs (dev s) (Attr ''dt'')) s = (r2, s)"
    using datetime_dict_state [of WEEKDAYS "regs (dev s) (Attr ''dt'')" s]
    by (cases "datetime_dict WEEKDAYS (regs (dev s) (Attr ''dt'')) s") simp
  have body: "get_config_body reg_driver WEEKDAYS s =
     (case r1 of
        Inl e \<Rightarrow> Inl e
      | Inr programs \<Rightarrow>
          (case r2 of
             Inl e \<Rightarrow> Inl e
           | Inr datetime \<Rightarrow>
               Inr (VDict
                 (zip config_attrs (map (\<lambda>name. regs (dev s) (Attr name)) config_attrs) @
                  [ (''running_program'', VInt (m div 8)), (''datetime'', datetime),
                    (''programs'', VList programs) ]))), s)"
    unfolding get_config_body_def
    by (cases r1; cases r2)
       (simp_all only: io_bind_def io_return_def io_lift_def reg_new p reg_get reg_settings d m
          floor_div8_def py_int.simps option.case prod.case sum.case)
  show ?thesis
  proof (cases r1)
    case (Inl e)
    with ok body show ?thesis by (simp add: get_config_def except_Exception_def)
  next
    case programs: (Inr programs)
    show ?thesis
    proof (cases r2)
      case (Inl e)
      with ok body programs show ?thesis by (simp add: get_config_def except_Exception_def)
    next
      case (Inr datetime)
      with ok body programs have
        "resp = VDict
           (zip config_attrs (map (\<lambda>name. regs (dev s) (Attr name)) config_attrs) @
            [ (''running_program'', VInt (m div 8)), (''datetime'', datetime),
              (''programs'', VList programs) ])"
        by (simp add: get_config_def except_Exception_def)
      then show ?thesis by (simp only: dict_get.simps map_of_settings)
    qed
  qed
qed

text \<open>
  C6. Let \<open>1 \<le> n \<le> 4\<close>. Whatever the driver, a \<open>POST /control\<close> that carries
  \<open>running_program = n\<close> and succeeds has issued, among its writes, the write of \<open>n * 8\<close> to
  the setting \<open>RUNNING_PROGRAM\<close>. On the register-file device, a \<open>GET /config\<close> that succeeds
  reports under \<open>running_program\<close> the stored value divided by 8 (Python's \<open>//\<close>), and after a
  successful set of \<open>running_program\<close> to \<open>n\<close> it reports \<open>n\<close>.
\<close>

theorem running_program_round_trip:
  assumes "1 \<le> n" and "n \<le> 4"
  shows "(control_pump drv (control\<lparr>running_program := Some n\<rparr>) s = (Inr body, s') \<longrightarrow>
            (Setting ''RUNNING_PROGRAM'', VInt (n * 8))
              \<in> set (drop (length (issued s)) (issued s')))
       \<and> (regs (dev r) (Setting ''RUNNING_PROGRAM'') = VInt m \<and>
            fst (get_config reg_driver WEEKDAYS r) = Inr resp \<longrightarrow>
            dict_get resp ''running_program'' = Some (VInt (m div 8)))
       \<and> (control_pump reg_driver (control\<lparr>running_program := Some n\<rparr>) r = (Inr body', r') \<and>
            fst (get_config reg_driver WEEKDAYS r') = Inr resp' \<longrightarrow>
            dict_get resp' ''running_program'' = Some (VInt n))"
proof (intro conjI impI)
  assume "control_pump drv (control\<lparr>running_program := Some n\<rparr>) s = (Inr body, s')"
  from control_pump_success [OF this]
  have "issued s' = issued s @ writes_of (control_actions (control\<lparr>running_program := Some n\<rparr>))"
    by simp
  then show "(Setting ''RUNNING_PROGRAM'', VInt (n * 8))
               \<in> set (drop (length (issued s)) (issued s'))"
    using running_program_written [OF assms] by simp
next
  assume "regs (dev r) (Setting ''RUNNING_PROGRAM'') = VInt m \<and>
          fst (get_config reg_driver WEEKDAYS r) = Inr resp"
  then show "dict_get resp ''running_program'' = Some (VInt (m div 8))"
    using reg_config_running_program by blast
next
  assume a: "control_pump reg_driver (control\<lparr>running_program := Some n\<rparr>) r = (Inr body', r') \<and>
          fst (get_config reg_driver WEEKDAYS r') = Inr resp'"
  let ?c = "control\<lparr>running_program := Some n\<rparr>"
  have new: "pump_new reg_driver (dev r) = (None, dev r)" by (simp add: reg_driver_def)
  from a control_pump_success have fr: "first_raise (control_actions ?c) = None" by blast
  from a have "snd (control_pump reg_driver ?c r) = r'" by simp
  then have "dev r' = apply_writes reg_driver (writes_of (control_actions ?c)) (dev r)"
    by (auto simp: control_pump_run [OF reg_nofail new] first_raise_none [OF fr])
  then have "regs (dev r') (Setting ''RUNNING_PROGRAM'') = VInt (n * 8)"
    by (simp add: running_program_stored [OF assms])
  from reg_config_running_program [OF this, of WEEKDAYS resp'] a
  show "dict_get resp' ''running_program'' = Some (VInt n)" by simp
qed

theorem running_program_round_trip_witness:
  "1 \<le> (3::int) \<and> (3::int) \<le> 4
   \<and> control_pump reg_driver (no_fields\<lparr>running_program := Some 3\<rparr>) \<lparr>dev = idle, issued = []\<rparr> =
       (Inr success,
        \<lparr>dev = idle\<lparr>regs := (regs idle)(Setting ''RUNNING_PROGRAM'' := VInt 24)\<rparr>,
         issued = [(Setting ''RUNNING_PROGRAM'', VInt 24)]\<rparr>)
   \<and> status_code (fst (get_config reg_driver [(''SUNDAY'', 1), (''MONDAY'', 2)]
        \<lparr>dev = idle\<lparr>regs := (regs idle)(Setting ''RUNNING_PROGRAM'' := VInt 24)\<rparr>,
         issued = [(Setting ''RUNNING_PROGRAM'', VInt 24)]\<rparr>)) = 200
   \<and> dict_get (projr (fst (get_config reg_driver [(''SUNDAY'', 1), (''MONDAY'', 2)]
        \<lparr>dev = idle\<lparr>regs := (regs idle)(Setting ''RUNNING_PROGRAM'' := VInt 24)\<rparr>,
         issued = [(Setting ''RUNNING_PROGRAM'', VInt 24)]\<rparr>))) ''running_program''
       = Some (VInt 3)"
proof -
  let ?r' = "\<lparr>dev = idle\<lparr>regs := (regs idle)(Setting ''RUNNING_PROGRAM'' := VInt 24)\<rparr>,
         issued = [(Setting ''RUNNING_PROGRAM'', VInt 24)]\<rparr>"
  let ?W = "[(''SUNDAY'', 1::int), (''MONDAY'', 2)]"
  have set: "control_pump reg_driver (no_fields\<lparr>running_program := Some 3\<rparr>)
               \<lparr>dev = idle, issued = []\<rparr> = (Inr success, ?r')"
    by (simp add: control_pump_def control_pump_body_def control_actions_def io_defs block_defs
        no_fields_def reg_driver_def)
  have ok: "\<not> isl (fst (get_config reg_driver ?W ?r'))"
    by (simp add: get_config_def get_config_body_def io_defs read_program_def mode_label_def
        mode_labels_def floor_div8_def datetime_dict_def reverse_get_def config_attrs_def
        reg_driver_def idle_def idle_regs_def)
  then have resp: "fst (get_config reg_driver ?W ?r') =
                   Inr (projr (fst (get_config reg_driver ?W ?r')))"
    by (cases "fst (get_config reg_driver ?W ?r')") simp_all
  from ok have code: "status_code (fst (get_config reg_driver ?W ?r')) = 200"
    by (cases "fst (get_config reg_driver ?W ?r')") simp_all
  show ?thesis
    using running_program_round_trip [of 3 reg_driver no_fields "\<lparr>dev = idle, issued = []\<rparr>"
        success ?r' "\<lparr>dev = idle, issued = []\<rparr>" 0 ?W VNone success ?r'
        "projr (fst (get_config reg_driver ?W ?r'))"]
      set resp code
    by simp
qed

section \<open>DISABLED programs and /config\<close>












end
